theory Spec2Isabelle
  imports Complex_Main
begin

section \<open>The live audio session hook (src/hooks/useGeminiLive.ts)\<close>

text \<open>
  The hook \<^verbatim>\<open>useGeminiLive\<close> keeps its state in React state cells and refs that
  are shared by every callback of every session it ever opened. The model is a record
  of those cells, extended by what the callbacks do to the outside world: the list of
  effects performed so far, and the reactions registered with \<^verbatim>\<open>.then\<close> on a
  session promise that have not run yet.

  Objects created by the code (audio contexts, nodes, buffer sources, sessions) are
  natural numbers drawn from the counter \<open>nextId\<close>; the microphone stream is handed in
  by the environment. Times of the playback clock and volumes are real numbers (the
  source computes them in floating point).

  An \<^verbatim>\<open>async\<close> function is one function per stretch between two \<^verbatim>\<open>await\<close>s:
  the part up to the \<^verbatim>\<open>await\<close>, and the continuation, which takes what was
  awaited. Other callbacks may run in between.
\<close>

subsection \<open>Data\<close>

datatype ConnectionState = DISCONNECTED | CONNECTING | CONNECTED | ERROR

record PcmBlob =
  data :: string
  mimeType :: string

text \<open>
  A function call of the remote agent. The declared schema of the only tool makes
  \<^verbatim>\<open>isCorrect\<close> a required boolean and \<^verbatim>\<open>topic\<close> an optional string.
\<close>

record FunctionCall =
  fc_id :: string
  fc_name :: string
  isCorrect :: bool
  topic :: "string option"

text \<open>
  The three parts of a message that \<^verbatim>\<open>onmessage\<close> reads: \<^verbatim>\<open>toolCall\<close> with its
  function calls, the result of the optional chain
  \<^verbatim>\<open>serverContent?.modelTurn?.parts?.[0]?.inlineData?.data\<close>, and the truthiness of
  \<^verbatim>\<open>serverContent?.interrupted\<close>.
\<close>

record LiveServerMessage =
  toolCall :: "FunctionCall list option"
  inlineData :: "string option"
  interrupted :: bool

text \<open>An audio buffer of the Web Audio API; its duration is its length over its rate.\<close>

record AudioBuffer =
  buf_length :: nat
  sampleRate :: nat

definition duration :: "AudioBuffer \<Rightarrow> real" where
  "duration b = real (buf_length b) / real (sampleRate b)"

text \<open>What a \<^verbatim>\<open>.then\<close> callback registered on a session promise does with the session.\<close>

datatype reaction =
    Close
  | SendRealtimeInput PcmBlob
  | SendToolResponse string string string

datatype effect =
    NewAudioContext nat nat
  | LiveConnect nat
  | CreateMediaStreamSource nat nat nat
  | CreateScriptProcessor nat nat
  | CreateBufferSource nat nat
  | NodeConnect nat
  | NodeDisconnect nat
  | TrackStop nat
  | ContextClose nat
  | SourceStart nat real
  | SourceStop nat
  | PlayFeedbackSound bool
  | OnEvaluation bool "string option"
  | Transport nat reaction

record hook =
  connectionState :: ConnectionState
  isMimiSpeaking :: bool
  volume :: real
  inputAudioContextRef :: "nat option"
  outputAudioContextRef :: "nat option"
  scriptProcessorRef :: "nat option"
  inputSourceRef :: "nat option"
  mediaStreamRef :: "nat option"
  nextStartTimeRef :: real
  sourcesRef :: "nat list"
  sessionPromiseRef :: "nat option"
  onEvaluationRef :: bool
  reactions :: "(nat \<times> reaction) list"
  effects :: "effect list"
  nextId :: nat

text \<open>
  The hook as \<^verbatim>\<open>useState\<close> and \<^verbatim>\<open>useRef\<close> initialise it; \<open>cb\<close> says whether the
  caller passed an \<^verbatim>\<open>onEvaluation\<close> callback.
\<close>

definition hook_init :: "bool \<Rightarrow> hook" where
  "hook_init cb =
     \<lparr> connectionState = DISCONNECTED, isMimiSpeaking = False, volume = 0,
       inputAudioContextRef = None, outputAudioContextRef = None,
       scriptProcessorRef = None, inputSourceRef = None, mediaStreamRef = None,
       nextStartTimeRef = 0, sourcesRef = [], sessionPromiseRef = None,
       onEvaluationRef = cb, reactions = [], effects = [], nextId = 0 \<rparr>"

text \<open>
  The constants of one call of \<^verbatim>\<open>connect\<close> that the callbacks of its session
  close over: its two audio contexts and its microphone stream.
\<close>

record closure =
  inputCtx :: nat
  outputCtx :: nat
  stream :: nat

subsection \<open>Promise reactions\<close>

text \<open>
  \<^verbatim>\<open>sessionPromiseRef.current.then(f)\<close> registers \<open>f\<close> on the promise; \<open>f\<close> runs when
  the promise is fulfilled (at once, as a microtask, when it already is), in the order of
  registration. \<open>run_reactions s\<close> is that moment for the promise of session \<open>s\<close>.
\<close>

definition run_reactions :: "nat \<Rightarrow> hook \<Rightarrow> hook" where
  "run_reactions s st =
     st\<lparr> effects := effects st @ map (Transport s) (map snd (filter (\<lambda>p. fst p = s) (reactions st))),
         reactions := filter (\<lambda>p. fst p \<noteq> s) (reactions st) \<rparr>"

subsection \<open>disconnect\<close>

definition disconnect :: "hook \<Rightarrow> hook" where
  "disconnect st0 =
    (let st1 = (case sessionPromiseRef st0 of
                  None \<Rightarrow> st0
                | Some s \<Rightarrow> st0\<lparr> reactions := reactions st0 @ [(s, Close)],
                                 sessionPromiseRef := None \<rparr>);
         st2 = (case mediaStreamRef st1 of
                  None \<Rightarrow> st1
                | Some m \<Rightarrow> st1\<lparr> effects := effects st1 @ [TrackStop m],
                                 mediaStreamRef := None \<rparr>);
         st3 = (case inputSourceRef st2 of
                  None \<Rightarrow> st2
                | Some n \<Rightarrow> st2\<lparr> effects := effects st2 @ [NodeDisconnect n],
                                 inputSourceRef := None \<rparr>);
         st4 = (case scriptProcessorRef st3 of
                  None \<Rightarrow> st3
                | Some n \<Rightarrow> st3\<lparr> effects := effects st3 @ [NodeDisconnect n],
                                 scriptProcessorRef := None \<rparr>);
         st5 = (case inputAudioContextRef st4 of
                  None \<Rightarrow> st4
                | Some c \<Rightarrow> st4\<lparr> effects := effects st4 @ [ContextClose c],
                                 inputAudioContextRef := None \<rparr>);
         st6 = st5\<lparr> effects := effects st5 @ map SourceStop (sourcesRef st5),
                    sourcesRef := [] \<rparr>;
         st7 = (case outputAudioContextRef st6 of
                  None \<Rightarrow> st6
                | Some c \<Rightarrow> st6\<lparr> effects := effects st6 @ [ContextClose c],
                                 outputAudioContextRef := None \<rparr>)
     in st7\<lparr> connectionState := DISCONNECTED, isMimiSpeaking := False, volume := 0 \<rparr>)"

subsection \<open>connect\<close>

datatype error = AcquisitionError

text \<open>
  \<^verbatim>\<open>connect\<close> up to \<^verbatim>\<open>await navigator.mediaDevices.getUserMedia\<close>. \<open>now\<close> is
  \<^verbatim>\<open>outputCtx.currentTime\<close> of the context just created.
\<close>

definition connect_begin :: "real \<Rightarrow> hook \<Rightarrow> (nat \<times> nat) \<times> hook" where
  "connect_begin now st =
    (let i = nextId st; out = nextId st + 1
     in ((i, out),
         st\<lparr> connectionState := CONNECTING,
             effects := effects st @ [NewAudioContext i 16000, NewAudioContext out 24000],
             inputAudioContextRef := Some i,
             outputAudioContextRef := Some out,
             nextStartTimeRef := now,
             nextId := nextId st + 2 \<rparr>))"

text \<open>
  The continuation of \<^verbatim>\<open>connect\<close>: with the stream, it opens the session and
  stores its promise; when \<^verbatim>\<open>getUserMedia\<close> rejects, the \<^verbatim>\<open>catch\<close> block runs.
\<close>

definition connect_resume :: "nat \<times> nat \<Rightarrow> error + nat \<Rightarrow> hook \<Rightarrow> closure option \<times> hook" where
  "connect_resume ctxs r st =
    (case r of
       Inr m \<Rightarrow>
         (Some \<lparr> inputCtx = fst ctxs, outputCtx = snd ctxs, stream = m \<rparr>,
          st\<lparr> mediaStreamRef := Some m,
              effects := effects st @ [LiveConnect (nextId st)],
              sessionPromiseRef := Some (nextId st),
              nextId := nextId st + 1 \<rparr>)
     | Inl e \<Rightarrow> (None, disconnect (st\<lparr> connectionState := ERROR \<rparr>)))"

text \<open>
  \<^verbatim>\<open>connect\<close> when nothing else runs while it waits for the microphone. The
  result holds the closure of the session's callbacks when a session was opened.
\<close>

definition connect :: "real \<Rightarrow> error + nat \<Rightarrow> hook \<Rightarrow> closure option \<times> hook" where
  "connect now r st = (case connect_begin now st of (ctxs, st1) \<Rightarrow> connect_resume ctxs r st1)"

subsection \<open>The callbacks of a session\<close>

definition onopen :: "closure \<Rightarrow> hook \<Rightarrow> hook" where
  "onopen c st =
    (let source = nextId st; processor = nextId st + 1
     in st\<lparr> connectionState := CONNECTED,
            inputSourceRef := Some source,
            scriptProcessorRef := Some processor,
            effects := effects st @
              [CreateMediaStreamSource (inputCtx c) (stream c) source,
               CreateScriptProcessor (inputCtx c) processor,
               NodeConnect source, NodeConnect processor],
            nextId := nextId st + 2 \<rparr>)"

text \<open>
  The capture callback. \<^verbatim>\<open>createBlob\<close> lives in a file that is not part of the
  sources at hand and is a parameter. The processor delivers frames of 4096 samples.
\<close>

definition rms :: "real list \<Rightarrow> real" where
  "rms inputData = sqrt (fold (\<lambda>x sum. sum + x * x) inputData 0 / real (length inputData))"

definition onaudioprocess :: "(real list \<Rightarrow> PcmBlob) \<Rightarrow> real list \<Rightarrow> hook \<Rightarrow> hook" where
  "onaudioprocess createBlob inputData st0 =
    (let st1 = st0\<lparr> volume := min (rms inputData * 5) 1 \<rparr>;
         pcmBlob = createBlob inputData
     in case sessionPromiseRef st1 of
          None \<Rightarrow> st1
        | Some s \<Rightarrow> st1\<lparr> reactions := reactions st1 @ [(s, SendRealtimeInput pcmBlob)] \<rparr>)"

text \<open>
  One turn of the loop over \<^verbatim>\<open>message.toolCall.functionCalls\<close>. The feedback sound
  catches its own exceptions. The callback belongs to the application; it is recorded as
  an effect and taken not to call back into the hook.
\<close>

definition handle_functionCall :: "FunctionCall \<Rightarrow> hook \<Rightarrow> hook" where
  "handle_functionCall fc st0 =
    (if fc_name fc = ''reportEvaluation'' then
       (let st1 = st0\<lparr> effects := effects st0 @ [PlayFeedbackSound (isCorrect fc)] \<rparr>;
            st2 = (if onEvaluationRef st1
                   then st1\<lparr> effects := effects st1 @ [OnEvaluation (isCorrect fc) (topic fc)] \<rparr>
                   else st1)
        in case sessionPromiseRef st2 of
             None \<Rightarrow> st2
           | Some s \<Rightarrow>
               st2\<lparr> reactions := reactions st2 @ [(s, SendToolResponse (fc_id fc) (fc_name fc) ''ok'')] \<rparr>)
     else st0)"

definition handle_toolCall :: "LiveServerMessage \<Rightarrow> hook \<Rightarrow> hook" where
  "handle_toolCall message st =
    (case toolCall message of
       None \<Rightarrow> st
     | Some functionCalls \<Rightarrow> fold handle_functionCall functionCalls st)"

text \<open>The last block of \<^verbatim>\<open>onmessage\<close>; \<open>now\<close> is \<^verbatim>\<open>outputCtx.currentTime\<close>.\<close>

definition handle_interrupted :: "LiveServerMessage \<Rightarrow> real \<Rightarrow> hook \<Rightarrow> hook" where
  "handle_interrupted message now st =
    (if interrupted message then
       st\<lparr> effects := effects st @ map SourceStop (sourcesRef st),
           sourcesRef := [],
           nextStartTimeRef := now,
           isMimiSpeaking := False \<rparr>
     else st)"

text \<open>
  \<^verbatim>\<open>onmessage\<close> up to \<^verbatim>\<open>await decodeAudioData\<close>, or to its end when the
  message has no audio. \<^verbatim>\<open>if (base64Audio)\<close> holds for a string that is not
  empty. The guard \<^verbatim>\<open>if (!outputCtx) return\<close> tests a constant that always holds
  a context.
\<close>

datatype progress = Done | AwaitDecode

definition truthy :: "string option \<Rightarrow> bool" where
  "truthy base64Audio = (case base64Audio of None \<Rightarrow> False | Some a \<Rightarrow> a \<noteq> [])"

definition onmessage_begin :: "LiveServerMessage \<Rightarrow> real \<Rightarrow> hook \<Rightarrow> progress \<times> hook" where
  "onmessage_begin message now st0 =
    (let st1 = handle_toolCall message st0
     in if truthy (inlineData message)
        then (AwaitDecode,
              st1\<lparr> isMimiSpeaking := True,
                  nextStartTimeRef := max (nextStartTimeRef st1) now \<rparr>)
        else (Done, handle_interrupted message now st1))"

text \<open>Adding to a JavaScript \<^verbatim>\<open>Set\<close>, which keeps insertion order.\<close>

definition set_add :: "nat \<Rightarrow> nat list \<Rightarrow> nat list" where
  "set_add x xs = (if x \<in> set xs then xs else xs @ [x])"

text \<open>
  The continuation of \<^verbatim>\<open>onmessage\<close> with the decoded buffer; \<open>now\<close> is
  \<^verbatim>\<open>outputCtx.currentTime\<close> when it runs. When decoding fails the promise of
  \<^verbatim>\<open>onmessage\<close> is rejected and the continuation never runs.
\<close>

definition onmessage_resume ::
  "closure \<Rightarrow> LiveServerMessage \<Rightarrow> AudioBuffer \<Rightarrow> real \<Rightarrow> hook \<Rightarrow> hook" where
  "onmessage_resume c message audioBuffer now st0 =
    (let source = nextId st0;
         st1 = st0\<lparr> effects := effects st0 @
                      [CreateBufferSource (outputCtx c) source, NodeConnect source,
                       SourceStart source (nextStartTimeRef st0)],
                    nextStartTimeRef := nextStartTimeRef st0 + duration audioBuffer,
                    sourcesRef := set_add source (sourcesRef st0),
                    nextId := nextId st0 + 1 \<rparr>
     in handle_interrupted message now st1)"

text \<open>
  The whole of \<^verbatim>\<open>onmessage\<close> when nothing else runs while it waits: \<open>decoded\<close> is
  the outcome of \<^verbatim>\<open>decodeAudioData\<close> and \<open>now'\<close> the clock after it.
\<close>

definition onmessage ::
  "closure \<Rightarrow> LiveServerMessage \<Rightarrow> real \<Rightarrow> AudioBuffer option \<Rightarrow> real \<Rightarrow> hook \<Rightarrow> hook" where
  "onmessage c message now decoded now' st =
    (case onmessage_begin message now st of
       (Done, st1) \<Rightarrow> st1
     | (AwaitDecode, st1) \<Rightarrow>
         (case decoded of
            None \<Rightarrow> st1
          | Some audioBuffer \<Rightarrow> onmessage_resume c message audioBuffer now' st1))"

text \<open>The listener for \<^verbatim>\<open>ended\<close> that \<^verbatim>\<open>onmessage\<close> puts on each buffer source.\<close>

definition onended :: "nat \<Rightarrow> hook \<Rightarrow> hook" where
  "onended source st0 =
    (let st1 = st0\<lparr> sourcesRef := removeAll source (sourcesRef st0) \<rparr>
     in if length (sourcesRef st1) = 0 then st1\<lparr> isMimiSpeaking := False \<rparr> else st1)"

definition onclose :: "hook \<Rightarrow> hook" where
  "onclose st = disconnect st"

definition onerror :: "hook \<Rightarrow> hook" where
  "onerror st = (disconnect st)\<lparr> connectionState := ERROR \<rparr>"

subsection \<open>Reading the state\<close>

text \<open>The hook holds no session, stream, node, context or playback handle.\<close>

definition torn_down :: "hook \<Rightarrow> bool" where
  "torn_down st =
     (sessionPromiseRef st = None \<and> mediaStreamRef st = None \<and> inputSourceRef st = None \<and>
      scriptProcessorRef st = None \<and> inputAudioContextRef st = None \<and> sourcesRef st = [] \<and>
      outputAudioContextRef st = None)"

definition opt_list :: "'a option \<Rightarrow> 'a list" where
  "opt_list x = (case x of None \<Rightarrow> [] | Some a \<Rightarrow> [a])"

text \<open>The sessions opened so far, and those of them whose close was never requested.\<close>

definition opened_sessions :: "hook \<Rightarrow> nat list" where
  "opened_sessions st =
     concat (map (\<lambda>e. case e of LiveConnect s \<Rightarrow> [s] | _ \<Rightarrow> []) (effects st))"

definition close_requested :: "hook \<Rightarrow> nat \<Rightarrow> bool" where
  "close_requested st s =
     ((s, Close) \<in> set (reactions st) \<or> Transport s Close \<in> set (effects st))"

definition active_sessions :: "hook \<Rightarrow> nat list" where
  "active_sessions st = filter (\<lambda>s. \<not> close_requested st s) (opened_sessions st)"

text \<open>The buffer sources started so far, each with the time it was started at.\<close>

definition scheduled :: "hook \<Rightarrow> (nat \<times> real) list" where
  "scheduled st =
     concat (map (\<lambda>e. case e of SourceStart n t \<Rightarrow> [(n, t)] | _ \<Rightarrow> []) (effects st))"

text \<open>The ids of the tool responses registered on a session promise or sent.\<close>

definition response_of :: "reaction \<Rightarrow> string list" where
  "response_of r = (case r of SendToolResponse i n p \<Rightarrow> [i] | _ \<Rightarrow> [])"

definition tool_responses :: "hook \<Rightarrow> string list" where
  "tool_responses st =
     concat (map (\<lambda>e. case e of Transport s r \<Rightarrow> response_of r | _ \<Rightarrow> []) (effects st)) @
     concat (map (\<lambda>p. response_of (snd p)) (reactions st))"

text \<open>The function calls of a message that the loop of \<^verbatim>\<open>onmessage\<close> acts on.\<close>

definition evaluation_calls :: "LiveServerMessage \<Rightarrow> FunctionCall list" where
  "evaluation_calls message =
     filter (\<lambda>fc. fc_name fc = ''reportEvaluation'') (concat (opt_list (toolCall message)))"

subsection \<open>A session to run the callbacks in\<close>

text \<open>
  A hook with a callback, connected once with microphone stream 7: contexts 0 and 1,
  session 2, capture nodes 3 and 4.
\<close>

definition first_closure :: closure where
  "first_closure = \<lparr> inputCtx = 0, outputCtx = 1, stream = 7 \<rparr>"

definition connected_hook :: hook where
  "connected_hook = onopen first_closure (snd (connect 0 (Inr 7) (hook_init True)))"

definition audio_message :: LiveServerMessage where
  "audio_message = \<lparr> toolCall = None, inlineData = Some ''AAAA'', interrupted = False \<rparr>"

definition interrupting_audio_message :: LiveServerMessage where
  "interrupting_audio_message =
     \<lparr> toolCall = None, inlineData = Some ''AAAA'', interrupted = True \<rparr>"

definition interruption_message :: LiveServerMessage where
  "interruption_message = \<lparr> toolCall = None, inlineData = None, interrupted = True \<rparr>"

definition colors_call :: FunctionCall where
  "colors_call =
     \<lparr> fc_id = ''call-1'', fc_name = ''reportEvaluation'', isCorrect = True,
       topic = Some ''Colors'' \<rparr>"

definition other_call :: FunctionCall where
  "other_call =
     \<lparr> fc_id = ''call-2'', fc_name = ''lookupWeather'', isCorrect = False, topic = None \<rparr>"

definition math_call :: FunctionCall where
  "math_call =
     \<lparr> fc_id = ''call-3'', fc_name = ''reportEvaluation'', isCorrect = False, topic = None \<rparr>"

definition tool_message :: "FunctionCall list \<Rightarrow> LiveServerMessage" where
  "tool_message fcs = \<lparr> toolCall = Some fcs, inlineData = None, interrupted = False \<rparr>"

definition chunk :: "nat \<Rightarrow> AudioBuffer" where
  "chunk n = \<lparr> buf_length = n, sampleRate = 24000 \<rparr>"

text \<open>The connected hook after three chunks of a tenth of a second, none of them ended.\<close>

definition playing_hook :: hook where
  "playing_hook =
     onmessage first_closure audio_message 0 (Some (chunk 2400)) 0
       (onmessage first_closure audio_message 0 (Some (chunk 2400)) 0
         (onmessage first_closure audio_message 0 (Some (chunk 2400)) 0 connected_hook))"

subsection \<open>The wire encoding of one sample\<close>

text \<open>
  Modelled from the spec: what \<^verbatim>\<open>createBlob\<close> does to one sample; its file,
  utils/audio, is not among the sources. The spec: each float sample is quantized to a
  16-bit signed integer, multiplied by 32767 and clamped to the signed 16-bit range. It
  does not say how the product is rounded; the rounding is a parameter.
\<close>

definition quantize_sample :: "(real \<Rightarrow> int) \<Rightarrow> real \<Rightarrow> int" where
  "quantize_sample rounding x = max (- 32768) (min 32767 (rounding (x * 32767)))"

text \<open>
  Modelled from the spec: what \<^verbatim>\<open>decodeAudioData\<close>, of the same missing file, does to
  one 16-bit sample. The spec: the bytes are read as 16-bit signed PCM and normalized to
  float samples in the range from -1 to 1. It does not name the divisor, a parameter.
\<close>

definition normalize_sample :: "real \<Rightarrow> int \<Rightarrow> real" where
  "normalize_sample divisor q = real_of_int q / divisor"

section \<open>Properties\<close>

subsection \<open>Teardown\<close>

lemma disconnect_fields:
  "connectionState (disconnect st) = DISCONNECTED"
  "isMimiSpeaking (disconnect st) = False"
  "volume (disconnect st) = 0"
  "inputAudioContextRef (disconnect st) = None"
  "outputAudioContextRef (disconnect st) = None"
  "scriptProcessorRef (disconnect st) = None"
  "inputSourceRef (disconnect st) = None"
  "mediaStreamRef (disconnect st) = None"
  "sourcesRef (disconnect st) = []"
  "sessionPromiseRef (disconnect st) = None"
  "nextStartTimeRef (disconnect st) = nextStartTimeRef st"
  "onEvaluationRef (disconnect st) = onEvaluationRef st"
  "nextId (disconnect st) = nextId st"
  by (simp_all add: disconnect_def Let_def split: option.split)

lemma disconnect_effects:
  "effects (disconnect st) =
     effects st @ map TrackStop (opt_list (mediaStreamRef st)) @
     map NodeDisconnect (opt_list (inputSourceRef st)) @
     map NodeDisconnect (opt_list (scriptProcessorRef st)) @
     map ContextClose (opt_list (inputAudioContextRef st)) @
     map SourceStop (sourcesRef st) @
     map ContextClose (opt_list (outputAudioContextRef st))"
  by (simp add: disconnect_def Let_def opt_list_def split: option.split)

lemma disconnect_reactions:
  "reactions (disconnect st) =
     reactions st @ map (\<lambda>s. (s, Close)) (opt_list (sessionPromiseRef st))"
  by (simp add: disconnect_def Let_def opt_list_def split: option.split)

lemma torn_down_disconnect: "torn_down (disconnect st)"
  by (simp add: torn_down_def disconnect_fields)

lemma disconnect_torn_down:
  "torn_down st \<Longrightarrow>
     disconnect st = st\<lparr> connectionState := DISCONNECTED, isMimiSpeaking := False, volume := 0 \<rparr>"
  by (simp add: disconnect_def torn_down_def)

lemma disconnect_twice: "disconnect (disconnect st) = disconnect st"
proof -
  have "disconnect (disconnect st) =
          (disconnect st)\<lparr> connectionState := DISCONNECTED, isMimiSpeaking := False, volume := 0 \<rparr>"
    by (rule disconnect_torn_down [OF torn_down_disconnect])
  also have "\<dots> = disconnect st"
    by (simp add: disconnect_def Let_def split: option.split)
  finally show ?thesis .
qed

text \<open>
  Claim C8. \<^verbatim>\<open>disconnect\<close> is a total function of the hook's state with no failing
  branch. Called a second time it changes nothing at all: no effect is performed, no
  reaction registered, and the connection state is \<open>DISCONNECTED\<close> after every call.
  Called on the hook as initialised, before any \<^verbatim>\<open>connect\<close>, it leaves it as it is.
\<close>

theorem disconnect_idempotent:
  "disconnect (disconnect st) = disconnect st \<and>
   connectionState (disconnect st) = DISCONNECTED \<and>
   disconnect (hook_init cb) = hook_init cb"
proof -
  have "disconnect (hook_init cb) = hook_init cb"
    by (simp add: disconnect_def hook_init_def)
  then show ?thesis
    by (simp add: disconnect_twice disconnect_fields)
qed

theorem disconnect_idempotent_witness:
  "disconnect (disconnect connected_hook) = disconnect connected_hook \<and>
   connectionState (disconnect connected_hook) = DISCONNECTED \<and>
   disconnect (hook_init True) = hook_init True"
  by (rule disconnect_idempotent)

subsection \<open>Connecting\<close>

lemma connect_Inr:
  "snd (connect now (Inr m) st) =
     st\<lparr> connectionState := CONNECTING,
         effects := effects st @ [NewAudioContext (nextId st) 16000,
                                  NewAudioContext (nextId st + 1) 24000,
                                  LiveConnect (nextId st + 2)],
         inputAudioContextRef := Some (nextId st),
         outputAudioContextRef := Some (nextId st + 1),
         nextStartTimeRef := now,
         mediaStreamRef := Some m,
         sessionPromiseRef := Some (nextId st + 2),
         nextId := nextId st + 3 \<rparr>"
  by (simp add: connect_def connect_begin_def connect_resume_def Let_def)

text \<open>
  Claim C3. When \<^verbatim>\<open>getUserMedia\<close> rejects, the \<^verbatim>\<open>catch\<close> block of
  \<^verbatim>\<open>connect\<close> sets the state to \<open>ERROR\<close> and then calls \<^verbatim>\<open>disconnect\<close>,
  which sets it to \<open>DISCONNECTED\<close>: the state left behind is \<open>DISCONNECTED\<close>, in
  whatever state \<^verbatim>\<open>connect\<close> was called. Nothing of the session is left
  running. The handler \<^verbatim>\<open>onerror\<close> makes the same two calls in the other order and
  leaves \<open>ERROR\<close>.
\<close>

theorem connect_acquisition_failure:
  "connectionState (snd (connect now (Inl AcquisitionError) st)) = DISCONNECTED \<and>
   torn_down (snd (connect now (Inl AcquisitionError) st)) \<and>
   connectionState (onerror st) = ERROR"
  by (simp add: connect_def connect_begin_def connect_resume_def Let_def onerror_def
      disconnect_fields torn_down_disconnect)

lemma close_requested_connect:
  "close_requested (snd (connect now (Inr m) st)) s = close_requested st s"
  by (simp add: connect_Inr close_requested_def)

lemma opened_sessions_connect:
  "opened_sessions (snd (connect now (Inr m) st)) = opened_sessions st @ [nextId st + 2]"
  by (simp add: connect_Inr opened_sessions_def)

text \<open>
  Claim C1, as the code has it. \<^verbatim>\<open>connect\<close>, in any state, performs three effects
  only: it creates two audio contexts and opens a session. It stops no microphone
  stream, disconnects no node, stops no playback handle and registers no close, so every
  session that was active before the call is active after it. The teardown of the
  claim is what \<^verbatim>\<open>disconnect\<close> does to the stream, nodes, contexts, handles and
  session the refs hold.
\<close>

theorem connect_performs_no_teardown:
  "effects (snd (connect now (Inr m) st)) =
     effects st @ [NewAudioContext (nextId st) 16000, NewAudioContext (nextId st + 1) 24000,
                   LiveConnect (nextId st + 2)] \<and>
   reactions (snd (connect now (Inr m) st)) = reactions st \<and>
   sourcesRef (snd (connect now (Inr m) st)) = sourcesRef st \<and>
   inputSourceRef (snd (connect now (Inr m) st)) = inputSourceRef st \<and>
   scriptProcessorRef (snd (connect now (Inr m) st)) = scriptProcessorRef st \<and>
   set (active_sessions st) \<subseteq> set (active_sessions (snd (connect now (Inr m) st))) \<and>
   effects (disconnect st) =
     effects st @ map TrackStop (opt_list (mediaStreamRef st)) @
     map NodeDisconnect (opt_list (inputSourceRef st)) @
     map NodeDisconnect (opt_list (scriptProcessorRef st)) @
     map ContextClose (opt_list (inputAudioContextRef st)) @
     map SourceStop (sourcesRef st) @
     map ContextClose (opt_list (outputAudioContextRef st)) \<and>
   reactions (disconnect st) =
     reactions st @ map (\<lambda>s. (s, Close)) (opt_list (sessionPromiseRef st)) \<and>
   torn_down (disconnect st)"
proof -
  have "set (active_sessions st) \<subseteq> set (active_sessions (snd (connect now (Inr m) st)))"
    by (auto simp: active_sessions_def close_requested_connect opened_sessions_connect)
  moreover have "effects (snd (connect now (Inr m) st)) =
     effects st @ [NewAudioContext (nextId st) 16000, NewAudioContext (nextId st + 1) 24000,
                   LiveConnect (nextId st + 2)]"
    by (simp add: connect_Inr)
  moreover have "reactions (snd (connect now (Inr m) st)) = reactions st"
    "sourcesRef (snd (connect now (Inr m) st)) = sourcesRef st"
    "inputSourceRef (snd (connect now (Inr m) st)) = inputSourceRef st"
    "scriptProcessorRef (snd (connect now (Inr m) st)) = scriptProcessorRef st"
    by (simp_all add: connect_Inr)
  ultimately show ?thesis
    using disconnect_effects [of st] disconnect_reactions [of st] torn_down_disconnect [of st]
    by blast
qed

lemma connected_hook_eq:
  "connected_hook =
   \<lparr>connectionState = CONNECTED, isMimiSpeaking = False, volume = 0,
    inputAudioContextRef = Some 0, outputAudioContextRef = Some 1,
    scriptProcessorRef = Some 4, inputSourceRef = Some 3,
    mediaStreamRef = Some 7, nextStartTimeRef = 0, sourcesRef = [],
    sessionPromiseRef = Some 2, onEvaluationRef = True, reactions = [],
    effects =
      [NewAudioContext 0 16000, NewAudioContext 1 24000, LiveConnect 2,
       CreateMediaStreamSource 0 7 3, CreateScriptProcessor 0 4,
       NodeConnect 3, NodeConnect 4],
    nextId = 5\<rparr>"
  by (simp add: connected_hook_def first_closure_def onopen_def connect_Inr hook_init_def Let_def)

text \<open>
  Claim C1 fails as stated: \<^verbatim>\<open>connect\<close> called on a connected hook leaves the first
  session (2) active beside the new one (7), its microphone stream 7 running and its
  capture nodes 3 and 4 connected.
\<close>

theorem connect_while_connected_counterexample:
  "connectionState connected_hook = CONNECTED \<and>
   active_sessions (snd (connect 0 (Inr 8) connected_hook)) = [2, 7] \<and>
   TrackStop 7 \<notin> set (effects (snd (connect 0 (Inr 8) connected_hook))) \<and>
   NodeDisconnect 3 \<notin> set (effects (snd (connect 0 (Inr 8) connected_hook))) \<and>
   NodeDisconnect 4 \<notin> set (effects (snd (connect 0 (Inr 8) connected_hook))) \<and>
   \<not> close_requested (snd (connect 0 (Inr 8) connected_hook)) 2"
  by (simp add: connect_Inr connected_hook_eq active_sessions_def opened_sessions_def
      close_requested_def)

theorem connect_performs_no_teardown_witness:
  "effects (snd (connect 0 (Inr 8) connected_hook)) =
     effects connected_hook @ [NewAudioContext 5 16000, NewAudioContext 6 24000, LiveConnect 7] \<and>
   reactions (snd (connect 0 (Inr 8) connected_hook)) = [] \<and>
   set (active_sessions connected_hook) \<subseteq> set (active_sessions (snd (connect 0 (Inr 8) connected_hook))) \<and>
   active_sessions connected_hook = [2] \<and>
   reactions (disconnect connected_hook) = [(2, Close)]"
  using connect_performs_no_teardown [of 0 8 connected_hook]
  by (simp add: connected_hook_eq active_sessions_def opened_sessions_def
      close_requested_def opt_list_def)



subsection \<open>Tool calls\<close>

lemma handle_functionCall_fields:
  "sessionPromiseRef (handle_functionCall fc st) = sessionPromiseRef st"
  "onEvaluationRef (handle_functionCall fc st) = onEvaluationRef st"
  "nextStartTimeRef (handle_functionCall fc st) = nextStartTimeRef st"
  "sourcesRef (handle_functionCall fc st) = sourcesRef st"
  "isMimiSpeaking (handle_functionCall fc st) = isMimiSpeaking st"
  "nextId (handle_functionCall fc st) = nextId st"
  by (simp_all add: handle_functionCall_def Let_def split: option.split)

lemma fold_handle_functionCall_fields:
  "sessionPromiseRef (fold handle_functionCall fcs st) = sessionPromiseRef st"
  "onEvaluationRef (fold handle_functionCall fcs st) = onEvaluationRef st"
  "nextStartTimeRef (fold handle_functionCall fcs st) = nextStartTimeRef st"
  "sourcesRef (fold handle_functionCall fcs st) = sourcesRef st"
  "isMimiSpeaking (fold handle_functionCall fcs st) = isMimiSpeaking st"
  "nextId (fold handle_functionCall fcs st) = nextId st"
  by (induction fcs arbitrary: st; simp add: handle_functionCall_fields)+

lemma handle_toolCall_fields:
  "sessionPromiseRef (handle_toolCall m st) = sessionPromiseRef st"
  "onEvaluationRef (handle_toolCall m st) = onEvaluationRef st"
  "nextStartTimeRef (handle_toolCall m st) = nextStartTimeRef st"
  "sourcesRef (handle_toolCall m st) = sourcesRef st"
  "isMimiSpeaking (handle_toolCall m st) = isMimiSpeaking st"
  "nextId (handle_toolCall m st) = nextId st"
  by (simp_all add: handle_toolCall_def fold_handle_functionCall_fields split: option.split)

lemma fold_handle_functionCall_reactions:
  "reactions (fold handle_functionCall fcs st) =
     reactions st @
     concat (map (\<lambda>fc. map (\<lambda>s. (s, SendToolResponse (fc_id fc) (fc_name fc) ''ok''))
                          (opt_list (sessionPromiseRef st)))
                 (filter (\<lambda>fc. fc_name fc = ''reportEvaluation'') fcs))"
proof (induction fcs arbitrary: st)
  case Nil
  show ?case by simp
next
  case (Cons fc fcs)
  have "reactions (handle_functionCall fc st) =
          reactions st @
          (if fc_name fc = ''reportEvaluation''
           then map (\<lambda>s. (s, SendToolResponse (fc_id fc) (fc_name fc) ''ok''))
                    (opt_list (sessionPromiseRef st))
           else [])"
    by (simp add: handle_functionCall_def Let_def opt_list_def split: option.split)
  then show ?case
    by (simp add: Cons.IH handle_functionCall_fields)
qed

lemma fold_handle_functionCall_effects:
  "effects (fold handle_functionCall fcs st) =
     effects st @
     concat (map (\<lambda>fc. PlayFeedbackSound (isCorrect fc) #
                        (if onEvaluationRef st then [OnEvaluation (isCorrect fc) (topic fc)] else []))
                 (filter (\<lambda>fc. fc_name fc = ''reportEvaluation'') fcs))"
proof (induction fcs arbitrary: st)
  case Nil
  show ?case by simp
next
  case (Cons fc fcs)
  have "effects (handle_functionCall fc st) =
          effects st @
          (if fc_name fc = ''reportEvaluation''
           then PlayFeedbackSound (isCorrect fc) #
                (if onEvaluationRef st then [OnEvaluation (isCorrect fc) (topic fc)] else [])
           else [])"
    by (simp add: handle_functionCall_def Let_def split: option.split)
  then show ?case
    by (simp add: Cons.IH handle_functionCall_fields)
qed

lemma handle_toolCall_reactions:
  "reactions (handle_toolCall m st) =
     reactions st @
     concat (map (\<lambda>fc. map (\<lambda>s. (s, SendToolResponse (fc_id fc) (fc_name fc) ''ok''))
                          (opt_list (sessionPromiseRef st)))
                 (evaluation_calls m))"
  by (simp add: handle_toolCall_def evaluation_calls_def opt_list_def
      fold_handle_functionCall_reactions split: option.split)

lemma handle_toolCall_effects:
  "effects (handle_toolCall m st) =
     effects st @
     concat (map (\<lambda>fc. PlayFeedbackSound (isCorrect fc) #
                        (if onEvaluationRef st then [OnEvaluation (isCorrect fc) (topic fc)] else []))
                 (evaluation_calls m))"
  by (simp add: handle_toolCall_def evaluation_calls_def opt_list_def
      fold_handle_functionCall_effects split: option.split)

lemma handle_interrupted_reactions:
  "reactions (handle_interrupted m now st) = reactions st"
  by (simp add: handle_interrupted_def)

lemma onmessage_reactions:
  "reactions (onmessage c m now dec now' st) = reactions (handle_toolCall m st)"
  by (simp add: onmessage_def onmessage_begin_def onmessage_resume_def Let_def
      handle_interrupted_reactions split: option.split)

text \<open>
  Claim C2, as the code has it. The loop of \<^verbatim>\<open>onmessage\<close> acts only on function
  calls named \<^verbatim>\<open>reportEvaluation\<close>. While a session promise is current, the handler
  registers on it, for each of these calls and in their order, exactly one tool response
  with the id and name of the call and the result \<^verbatim>\<open>ok\<close>, whether or not a callback
  is registered, and nothing for any other call. While none is current it registers
  nothing.
\<close>

theorem toolCall_responses:
  "(sessionPromiseRef st = Some s \<longrightarrow>
      reactions (onmessage c m now dec now' st) =
        reactions st @
        map (\<lambda>fc. (s, SendToolResponse (fc_id fc) (fc_name fc) ''ok'')) (evaluation_calls m)) \<and>
   (sessionPromiseRef st = None \<longrightarrow>
      reactions (onmessage c m now dec now' st) = reactions st)"
  by (simp add: onmessage_reactions handle_toolCall_reactions opt_list_def)

lemma tool_message_calls: "evaluation_calls (tool_message [other_call, colors_call]) = [colors_call]"
  by (simp add: evaluation_calls_def tool_message_def opt_list_def other_call_def colors_call_def)


theorem toolCall_responses_witness:
  "sessionPromiseRef connected_hook = Some 2 \<and>
   reactions (onmessage first_closure (tool_message [other_call, colors_call]) 0 None 0 connected_hook) =
     [(2, SendToolResponse ''call-1'' ''reportEvaluation'' ''ok'')] \<and>
   sessionPromiseRef (disconnect connected_hook) = None \<and>
   reactions (onmessage first_closure (tool_message [other_call, colors_call]) 0 None 0
                (disconnect connected_hook)) = [(2, Close)]"
proof -
  have s: "sessionPromiseRef connected_hook = Some 2"
    by (simp add: connected_hook_eq)
  have n: "sessionPromiseRef (disconnect connected_hook) = None"
    by (simp add: disconnect_fields)
  have r: "reactions connected_hook = []" "reactions (disconnect connected_hook) = [(2, Close)]"
    by (simp_all add: disconnect_reactions opt_list_def connected_hook_eq)
  show ?thesis
    using toolCall_responses [of connected_hook 2 first_closure
        "tool_message [other_call, colors_call]" 0 None 0]
      toolCall_responses [of "disconnect connected_hook" 2 first_closure
        "tool_message [other_call, colors_call]" 0 None 0]
    unfolding s n r tool_message_calls
    by (simp add: colors_call_def)
qed

text \<open>
  Claim C2 fails as stated: a function call of another name, received on a connected
  hook, gets no tool response, neither at once nor when the reactions of the session
  promise run.
\<close>

theorem unknown_toolCall_counterexample:
  "sessionPromiseRef connected_hook = Some 2 \<and>
   toolCall (tool_message [other_call]) = Some [other_call] \<and>
   tool_responses (run_reactions 2
     (onmessage first_closure (tool_message [other_call]) 0 None 0 connected_hook)) = []"
  by (simp add: connected_hook_eq tool_message_def other_call_def onmessage_def
      onmessage_begin_def handle_toolCall_def handle_functionCall_def handle_interrupted_def
      truthy_def run_reactions_def tool_responses_def response_of_def)

lemma onmessage_begin_effects:
  "effects (snd (onmessage_begin m now st)) =
     effects (handle_toolCall m st) @
     (if \<not> truthy (inlineData m) \<and> interrupted m then map SourceStop (sourcesRef st) else [])"
  by (simp add: onmessage_begin_def Let_def handle_interrupted_def handle_toolCall_fields)

lemma onmessage_begin_reactions:
  "reactions (snd (onmessage_begin m now st)) = reactions (handle_toolCall m st)"
  by (simp add: onmessage_begin_def Let_def handle_interrupted_def)

text \<open>
  Claim C9, as the code has it. For each evaluation call of a message, in the order
  received, the part of \<^verbatim>\<open>onmessage\<close> that runs at once performs the feedback sound
  with \<open>isCorrect\<close> and then (when a callback is registered) the callback with
  \<open>isCorrect\<close> and \<open>topic\<close>. While a session promise is current it then registers on
  it the tool response with the call's id and the result \<^verbatim>\<open>ok\<close>; the responses are
  sent when the reactions of the promise run, after both effects of their call and in
  the order of the calls. While no session promise is current no response is registered.
\<close>

theorem evaluation_effects_in_order:
  "effects (snd (onmessage_begin m now st)) =
     effects st @
     concat (map (\<lambda>fc. PlayFeedbackSound (isCorrect fc) #
                        (if onEvaluationRef st
                         then [OnEvaluation (isCorrect fc) (topic fc)] else []))
                 (evaluation_calls m)) @
     (if \<not> truthy (inlineData m) \<and> interrupted m then map SourceStop (sourcesRef st) else []) \<and>
   (sessionPromiseRef st = Some s \<longrightarrow>
      reactions (snd (onmessage_begin m now st)) =
        reactions st @
        map (\<lambda>fc. (s, SendToolResponse (fc_id fc) (fc_name fc) ''ok'')) (evaluation_calls m) \<and>
      effects (run_reactions s (snd (onmessage_begin m now st))) =
        effects (snd (onmessage_begin m now st)) @
        map (Transport s) (map snd (filter (\<lambda>p. fst p = s) (reactions st))) @
        map (\<lambda>fc. Transport s (SendToolResponse (fc_id fc) (fc_name fc) ''ok''))
            (evaluation_calls m)) \<and>
   (sessionPromiseRef st = None \<longrightarrow>
      reactions (snd (onmessage_begin m now st)) = reactions st)"
proof -
  have e: "effects (snd (onmessage_begin m now st)) =
           effects st @
           concat (map (\<lambda>fc. PlayFeedbackSound (isCorrect fc) #
                              (if onEvaluationRef st
                               then [OnEvaluation (isCorrect fc) (topic fc)] else []))
                       (evaluation_calls m)) @
           (if \<not> truthy (inlineData m) \<and> interrupted m then map SourceStop (sourcesRef st) else [])"
    by (simp add: onmessage_begin_effects handle_toolCall_effects)
  have r: "reactions (snd (onmessage_begin m now st)) =
           reactions st @
           map (\<lambda>fc. (s, SendToolResponse (fc_id fc) (fc_name fc) ''ok'')) (evaluation_calls m)"
    if "sessionPromiseRef st = Some s"
    by (simp add: onmessage_begin_reactions handle_toolCall_reactions that opt_list_def)
  have t: "effects (run_reactions s (snd (onmessage_begin m now st))) =
           effects (snd (onmessage_begin m now st)) @
           map (Transport s) (map snd (filter (\<lambda>p. fst p = s) (reactions st))) @
           map (\<lambda>fc. Transport s (SendToolResponse (fc_id fc) (fc_name fc) ''ok''))
               (evaluation_calls m)"
    if "sessionPromiseRef st = Some s"
    by (simp add: run_reactions_def r [OF that] filter_map comp_def)
  have n: "reactions (snd (onmessage_begin m now st)) = reactions st"
    if "sessionPromiseRef st = None"
    by (simp add: onmessage_begin_reactions handle_toolCall_reactions that opt_list_def)
  from e r t n show ?thesis by blast
qed

theorem evaluation_effects_in_order_witness:
  "sessionPromiseRef connected_hook = Some 2 \<and>
   effects (run_reactions 2
      (snd (onmessage_begin (tool_message [colors_call, other_call, math_call]) 0 connected_hook))) =
     effects connected_hook @
     [PlayFeedbackSound True, OnEvaluation True (Some ''Colors''),
      PlayFeedbackSound False, OnEvaluation False None,
      Transport 2 (SendToolResponse ''call-1'' ''reportEvaluation'' ''ok''),
      Transport 2 (SendToolResponse ''call-3'' ''reportEvaluation'' ''ok'')] \<and>
   sessionPromiseRef (disconnect connected_hook) = None \<and>
   reactions (snd (onmessage_begin (tool_message [colors_call, other_call, math_call]) 0
                     (disconnect connected_hook))) = [(2, Close)]"
proof -
  let ?m = "tool_message [colors_call, other_call, math_call]"
  have s: "sessionPromiseRef connected_hook = Some 2"
    by (simp add: connected_hook_eq)
  have n: "sessionPromiseRef (disconnect connected_hook) = None"
    by (simp add: disconnect_fields)
  have c: "evaluation_calls ?m = [colors_call, math_call]"
    by (simp add: evaluation_calls_def tool_message_def opt_list_def other_call_def
        colors_call_def math_call_def)
  have t: "truthy (inlineData ?m) = False" "interrupted ?m = False"
    by (simp_all add: tool_message_def truthy_def)
  have r: "reactions connected_hook = []" "onEvaluationRef connected_hook = True"
    "reactions (disconnect connected_hook) = [(2, Close)]"
    by (simp_all add: connected_hook_eq disconnect_reactions opt_list_def)
  note th = evaluation_effects_in_order [of ?m 0 connected_hook 2]
  note th' = evaluation_effects_in_order [of ?m 0 "disconnect connected_hook" 2]
  have 1: "effects (snd (onmessage_begin ?m 0 connected_hook)) =
             effects connected_hook @
             [PlayFeedbackSound True, OnEvaluation True (Some ''Colors''),
              PlayFeedbackSound False, OnEvaluation False None]"
    using th unfolding c t r by (simp add: colors_call_def math_call_def)
  have 2: "effects (run_reactions 2 (snd (onmessage_begin ?m 0 connected_hook))) =
             effects (snd (onmessage_begin ?m 0 connected_hook)) @
             [Transport 2 (SendToolResponse ''call-1'' ''reportEvaluation'' ''ok''),
              Transport 2 (SendToolResponse ''call-3'' ''reportEvaluation'' ''ok'')]"
    using th s unfolding c t r by (simp add: colors_call_def math_call_def)
  have 3: "reactions (snd (onmessage_begin ?m 0 (disconnect connected_hook))) = [(2, Close)]"
    using th' n unfolding r by simp
  show ?thesis
    unfolding 2 1 3 by (simp add: s n)
qed

text \<open>
  Claim C9 fails as stated: on a hook that was disconnected no session promise is
  current; an evaluation call that arrives then gets its sound and its callback, and no
  tool response is registered or sent.
\<close>

theorem evaluation_without_session_counterexample:
  "sessionPromiseRef (disconnect connected_hook) = None \<and>
   evaluation_calls (tool_message [colors_call]) = [colors_call] \<and>
   effects (snd (onmessage_begin (tool_message [colors_call]) 0 (disconnect connected_hook))) =
     effects (disconnect connected_hook) @
     [PlayFeedbackSound True, OnEvaluation True (Some ''Colors'')] \<and>
   tool_responses (run_reactions 2
     (snd (onmessage_begin (tool_message [colors_call]) 0 (disconnect connected_hook)))) = []"
proof -
  have d: "disconnect connected_hook =
   \<lparr>connectionState = DISCONNECTED, isMimiSpeaking = False, volume = 0,
    inputAudioContextRef = None, outputAudioContextRef = None,
    scriptProcessorRef = None, inputSourceRef = None,
    mediaStreamRef = None, nextStartTimeRef = 0, sourcesRef = [],
    sessionPromiseRef = None, onEvaluationRef = True, reactions = [(2, Close)],
    effects =
      [NewAudioContext 0 16000, NewAudioContext 1 24000, LiveConnect 2,
       CreateMediaStreamSource 0 7 3, CreateScriptProcessor 0 4,
       NodeConnect 3, NodeConnect 4, TrackStop 7, NodeDisconnect 3,
       NodeDisconnect 4, ContextClose 0, ContextClose 1],
    nextId = 5\<rparr>"
    by (simp add: disconnect_def connected_hook_eq)
  show ?thesis
    unfolding d
    by (simp add: evaluation_calls_def opt_list_def tool_message_def colors_call_def
        onmessage_begin_def handle_toolCall_def handle_functionCall_def handle_interrupted_def
        truthy_def run_reactions_def tool_responses_def response_of_def Let_def)
qed

subsection \<open>Playback\<close>


lemma onmessage_audio:
  assumes "truthy (inlineData m)"
  shows "onmessage c m now (Some b) now' st =
           onmessage_resume c m b now'
             ((handle_toolCall m st)\<lparr> isMimiSpeaking := True,
                 nextStartTimeRef := max (nextStartTimeRef st) now \<rparr>)"
  using assms by (simp add: onmessage_def onmessage_begin_def Let_def handle_toolCall_fields)

lemma onmessage_no_audio:
  assumes "\<not> truthy (inlineData m)"
  shows "onmessage c m now dec now' st = handle_interrupted m now (handle_toolCall m st)"
  using assms by (simp add: onmessage_def onmessage_begin_def Let_def)

lemma onmessage_resume_fields:
  "sourcesRef (onmessage_resume c m b now st) =
     (if interrupted m then [] else set_add (nextId st) (sourcesRef st))"
  "nextStartTimeRef (onmessage_resume c m b now st) =
     (if interrupted m then now else nextStartTimeRef st + duration b)"
  "isMimiSpeaking (onmessage_resume c m b now st) = (\<not> interrupted m \<and> isMimiSpeaking st)"
  "nextId (onmessage_resume c m b now st) = nextId st + 1"
  "reactions (onmessage_resume c m b now st) = reactions st"
  "effects (onmessage_resume c m b now st) =
     effects st @
     [CreateBufferSource (outputCtx c) (nextId st), NodeConnect (nextId st),
      SourceStart (nextId st) (nextStartTimeRef st)] @
     (if interrupted m then map SourceStop (set_add (nextId st) (sourcesRef st)) else [])"
  by (simp_all add: onmessage_resume_def handle_interrupted_def Let_def)

lemma scheduled_onmessage_resume:
  "scheduled (onmessage_resume c m b now st) = scheduled st @ [(nextId st, nextStartTimeRef st)]"
  by (auto simp: scheduled_def onmessage_resume_fields)






lemma playing_hook_eq:
  "playing_hook =
   \<lparr>connectionState = CONNECTED, isMimiSpeaking = True, volume = 0,
    inputAudioContextRef = Some 0, outputAudioContextRef = Some 1,
    scriptProcessorRef = Some 4, inputSourceRef = Some 3,
    mediaStreamRef = Some 7, nextStartTimeRef = 3 / 10, sourcesRef = [5, 6, 7],
    sessionPromiseRef = Some 2, onEvaluationRef = True, reactions = [],
    effects =
      [NewAudioContext 0 16000, NewAudioContext 1 24000, LiveConnect 2,
       CreateMediaStreamSource 0 7 3, CreateScriptProcessor 0 4,
       NodeConnect 3, NodeConnect 4,
       CreateBufferSource 1 5, NodeConnect 5, SourceStart 5 0,
       CreateBufferSource 1 6, NodeConnect 6, SourceStart 6 (1 / 10),
       CreateBufferSource 1 7, NodeConnect 7, SourceStart 7 (2 / 10)],
    nextId = 8\<rparr>"
  by (simp add: playing_hook_def onmessage_def onmessage_begin_def onmessage_resume_def
      handle_toolCall_def handle_interrupted_def audio_message_def truthy_def chunk_def
      duration_def set_add_def connected_hook_eq first_closure_def Let_def)

lemma duration_nonneg: "0 \<le> duration b"
  by (simp add: duration_def)

text \<open>
  Claim C6, as the code has it. When the handler of a message with the interruption
  flag reaches its last block (the message has no audio, or audio that decodes), it
  stops every handle of the active set, empties the set, turns the speaking flag off and
  sets the cursor to the clock of that moment. A message without the flag stops no
  handle, keeps the set and never moves the cursor back: with a chunk it sets the cursor
  to the larger of cursor and clock, the clock itself when the chunk is late, and after
  decoding adds the chunk's duration.
\<close>

theorem interruption_resets_playback:
  assumes "r = onmessage c m now dec now' st"
  shows "(interrupted m \<and> \<not> truthy (inlineData m) \<longrightarrow>
            effects r = effects (handle_toolCall m st) @ map SourceStop (sourcesRef st) \<and>
            sourcesRef r = [] \<and> \<not> isMimiSpeaking r \<and> nextStartTimeRef r = now) \<and>
         (interrupted m \<and> truthy (inlineData m) \<and> dec = Some b \<longrightarrow>
            effects r =
              effects (handle_toolCall m st) @
              [CreateBufferSource (outputCtx c) (nextId st), NodeConnect (nextId st),
               SourceStart (nextId st) (max (nextStartTimeRef st) now)] @
              map SourceStop (set_add (nextId st) (sourcesRef st)) \<and>
            set (sourcesRef st) \<subseteq> set (set_add (nextId st) (sourcesRef st)) \<and>
            sourcesRef r = [] \<and> \<not> isMimiSpeaking r \<and> nextStartTimeRef r = now') \<and>
         (\<not> interrupted m \<and> \<not> truthy (inlineData m) \<longrightarrow>
            effects r = effects (handle_toolCall m st) \<and> sourcesRef r = sourcesRef st \<and>
            isMimiSpeaking r = isMimiSpeaking st \<and> nextStartTimeRef r = nextStartTimeRef st) \<and>
         (\<not> interrupted m \<and> truthy (inlineData m) \<and> dec = None \<longrightarrow>
            effects r = effects (handle_toolCall m st) \<and> sourcesRef r = sourcesRef st \<and>
            isMimiSpeaking r \<and> nextStartTimeRef r = max (nextStartTimeRef st) now) \<and>
         (\<not> interrupted m \<and> truthy (inlineData m) \<and> dec = Some b \<longrightarrow>
            effects r =
              effects (handle_toolCall m st) @
              [CreateBufferSource (outputCtx c) (nextId st), NodeConnect (nextId st),
               SourceStart (nextId st) (max (nextStartTimeRef st) now)] \<and>
            sourcesRef r = set_add (nextId st) (sourcesRef st) \<and> isMimiSpeaking r \<and>
            nextStartTimeRef r = max (nextStartTimeRef st) now + duration b \<and>
            nextStartTimeRef st \<le> nextStartTimeRef r)"
proof -
  have 1: "effects r = effects (handle_toolCall m st) @ map SourceStop (sourcesRef st) \<and>
           sourcesRef r = [] \<and> \<not> isMimiSpeaking r \<and> nextStartTimeRef r = now"
    if "interrupted m" "\<not> truthy (inlineData m)"
    using that assms
    by (simp add: onmessage_no_audio handle_interrupted_def handle_toolCall_fields)
  have 2: "effects r =
              effects (handle_toolCall m st) @
              [CreateBufferSource (outputCtx c) (nextId st), NodeConnect (nextId st),
               SourceStart (nextId st) (max (nextStartTimeRef st) now)] @
              map SourceStop (set_add (nextId st) (sourcesRef st)) \<and>
           set (sourcesRef st) \<subseteq> set (set_add (nextId st) (sourcesRef st)) \<and>
           sourcesRef r = [] \<and> \<not> isMimiSpeaking r \<and> nextStartTimeRef r = now'"
    if "interrupted m" "truthy (inlineData m)" "dec = Some b"
  proof -
    have "set (sourcesRef st) \<subseteq> set (set_add (nextId st) (sourcesRef st))"
      by (auto simp: set_add_def)
    with that assms show ?thesis
      by (simp add: onmessage_audio onmessage_resume_fields handle_toolCall_fields)
  qed
  have 3: "effects r = effects (handle_toolCall m st) \<and> sourcesRef r = sourcesRef st \<and>
           isMimiSpeaking r = isMimiSpeaking st \<and> nextStartTimeRef r = nextStartTimeRef st"
    if "\<not> interrupted m" "\<not> truthy (inlineData m)"
    using that assms
    by (simp add: onmessage_no_audio handle_interrupted_def handle_toolCall_fields)
  have 4: "effects r = effects (handle_toolCall m st) \<and> sourcesRef r = sourcesRef st \<and>
           isMimiSpeaking r \<and> nextStartTimeRef r = max (nextStartTimeRef st) now"
    if "\<not> interrupted m" "truthy (inlineData m)" "dec = None"
    using that assms
    by (simp add: onmessage_def onmessage_begin_def Let_def handle_toolCall_fields)
  have 5: "effects r =
              effects (handle_toolCall m st) @
              [CreateBufferSource (outputCtx c) (nextId st), NodeConnect (nextId st),
               SourceStart (nextId st) (max (nextStartTimeRef st) now)] \<and>
           sourcesRef r = set_add (nextId st) (sourcesRef st) \<and> isMimiSpeaking r \<and>
           nextStartTimeRef r = max (nextStartTimeRef st) now + duration b \<and>
           nextStartTimeRef st \<le> nextStartTimeRef r"
    if "\<not> interrupted m" "truthy (inlineData m)" "dec = Some b"
  proof -
    have "nextStartTimeRef st \<le> max (nextStartTimeRef st) now + duration b"
      using duration_nonneg [of b] by linarith
    with that assms show ?thesis
      by (simp add: onmessage_audio onmessage_resume_fields handle_toolCall_fields)
  qed
  from 1 2 3 4 5 show ?thesis by blast
qed

theorem interruption_resets_playback_witness:
  "interrupted interruption_message \<and> \<not> truthy (inlineData interruption_message) \<and>
   sourcesRef playing_hook = [5, 6, 7] \<and> nextStartTimeRef playing_hook = 3 / 10 \<and>
   effects (onmessage first_closure interruption_message (1 / 20) None 1 playing_hook) =
     effects playing_hook @ [SourceStop 5, SourceStop 6, SourceStop 7] \<and>
   sourcesRef (onmessage first_closure interruption_message (1 / 20) None 1 playing_hook) = [] \<and>
   \<not> isMimiSpeaking (onmessage first_closure interruption_message (1 / 20) None 1 playing_hook) \<and>
   nextStartTimeRef (onmessage first_closure interruption_message (1 / 20) None 1 playing_hook) = 1 / 20 \<and>
   interrupted interrupting_audio_message \<and> truthy (inlineData interrupting_audio_message) \<and>
   effects (onmessage first_closure interrupting_audio_message (1 / 20) (Some (chunk 1200)) (1 / 10)
              playing_hook) =
     effects playing_hook @
     [CreateBufferSource 1 8, NodeConnect 8, SourceStart 8 (3 / 10),
      SourceStop 5, SourceStop 6, SourceStop 7, SourceStop 8] \<and>
   sourcesRef (onmessage first_closure interrupting_audio_message (1 / 20) (Some (chunk 1200)) (1 / 10)
              playing_hook) = [] \<and>
   nextStartTimeRef (onmessage first_closure interrupting_audio_message (1 / 20) (Some (chunk 1200))
              (1 / 10) playing_hook) = 1 / 10 \<and>
   \<not> interrupted audio_message \<and> truthy (inlineData audio_message) \<and>
   effects (onmessage first_closure audio_message 1 (Some (chunk 1200)) 1 playing_hook) =
     effects playing_hook @ [CreateBufferSource 1 8, NodeConnect 8, SourceStart 8 1] \<and>
   sourcesRef (onmessage first_closure audio_message 1 (Some (chunk 1200)) 1 playing_hook) =
     [5, 6, 7, 8] \<and>
   nextStartTimeRef (onmessage first_closure audio_message 1 (Some (chunk 1200)) 1 playing_hook) =
     1 + 1 / 20"
proof -
  have i: "interrupted interruption_message" "\<not> truthy (inlineData interruption_message)"
    "interrupted interrupting_audio_message" "truthy (inlineData interrupting_audio_message)"
    "\<not> interrupted audio_message" "truthy (inlineData audio_message)"
    by (simp_all add: interruption_message_def interrupting_audio_message_def audio_message_def
        truthy_def)
  have p: "sourcesRef playing_hook = [5, 6, 7]" "nextStartTimeRef playing_hook = 3 / 10"
    "nextId playing_hook = 8"
    by (simp_all add: playing_hook_eq)
  have t: "effects (handle_toolCall interruption_message playing_hook) = effects playing_hook"
    "effects (handle_toolCall interrupting_audio_message playing_hook) = effects playing_hook"
    "effects (handle_toolCall audio_message playing_hook) = effects playing_hook"
    by (simp_all add: handle_toolCall_def interruption_message_def
        interrupting_audio_message_def audio_message_def)
  have o: "outputCtx first_closure = 1" "duration (chunk 1200) = 1 / 20"
    by (simp_all add: first_closure_def chunk_def duration_def)
  note a = interruption_resets_playback [OF refl,
      of interruption_message first_closure "1 / 20" None 1 playing_hook "chunk 1200"]
  note b = interruption_resets_playback [OF refl,
      of interrupting_audio_message first_closure "1 / 20" "Some (chunk 1200)" "1 / 10"
        playing_hook "chunk 1200"]
  note c = interruption_resets_playback [OF refl,
      of audio_message first_closure 1 "Some (chunk 1200)" 1 playing_hook "chunk 1200"]
  show ?thesis
    using a b c i
    unfolding t p o
    by (simp add: set_add_def)
qed

text \<open>
  Claim C6 fails as stated, twice. A message with the interruption flag and a chunk that
  does not decode leaves the three active handles running, the speaking flag on and the
  cursor where it was. And a chunk without the flag that arrives late, at clock 1 with
  the cursor at 3/10, sets the cursor to the clock and is started there.
\<close>

theorem interruption_counterexample:
  "interrupted interrupting_audio_message \<and>
   effects (onmessage first_closure interrupting_audio_message (1 / 20) None (1 / 10) playing_hook) =
     effects playing_hook \<and>
   sourcesRef (onmessage first_closure interrupting_audio_message (1 / 20) None (1 / 10) playing_hook) =
     [5, 6, 7] \<and>
   isMimiSpeaking (onmessage first_closure interrupting_audio_message (1 / 20) None (1 / 10)
     playing_hook) \<and>
   nextStartTimeRef (onmessage first_closure interrupting_audio_message (1 / 20) None (1 / 10)
     playing_hook) = 3 / 10 \<and>
   \<not> interrupted audio_message \<and>
   nextStartTimeRef playing_hook = 3 / 10 \<and>
   nextStartTimeRef (snd (onmessage_begin audio_message 1 playing_hook)) = 1 \<and>
   scheduled (onmessage first_closure audio_message 1 (Some (chunk 1200)) 1 playing_hook) =
     scheduled playing_hook @ [(8, 1)]"
  unfolding playing_hook_eq
  by (simp add: onmessage_def onmessage_begin_def onmessage_resume_def handle_toolCall_def
      handle_interrupted_def interrupting_audio_message_def audio_message_def truthy_def
      scheduled_def set_add_def chunk_def duration_def first_closure_def Let_def)



subsection \<open>Callbacks of a session that is no longer current\<close>

text \<open>
  Claim C4 fails as stated: \<^verbatim>\<open>disconnect\<close> runs while a chunk of the connected hook
  is being decoded; the continuation of \<^verbatim>\<open>onmessage\<close> then starts the chunk's
  source, puts it in the emptied set of handles and advances the cursor, on a hook that
  is torn down and \<open>DISCONNECTED\<close>.
\<close>

theorem stale_continuation_counterexample:
  "torn_down (disconnect (snd (onmessage_begin audio_message 0 connected_hook))) \<and>
   sourcesRef (onmessage_resume first_closure audio_message (chunk 2400) 0
                 (disconnect (snd (onmessage_begin audio_message 0 connected_hook)))) = [5] \<and>
   scheduled (onmessage_resume first_closure audio_message (chunk 2400) 0
                 (disconnect (snd (onmessage_begin audio_message 0 connected_hook)))) = [(5, 0)] \<and>
   nextStartTimeRef (onmessage_resume first_closure audio_message (chunk 2400) 0
                 (disconnect (snd (onmessage_begin audio_message 0 connected_hook)))) = 1 / 10 \<and>
   connectionState (onmessage_resume first_closure audio_message (chunk 2400) 0
                 (disconnect (snd (onmessage_begin audio_message 0 connected_hook)))) = DISCONNECTED"
proof -
  have b: "snd (onmessage_begin audio_message 0 connected_hook) =
             connected_hook\<lparr> isMimiSpeaking := True \<rparr>"
    by (simp add: onmessage_begin_def handle_toolCall_def audio_message_def truthy_def
        connected_hook_eq Let_def)
  have d: "disconnect (connected_hook\<lparr> isMimiSpeaking := True \<rparr>) =
   \<lparr>connectionState = DISCONNECTED, isMimiSpeaking = False, volume = 0,
    inputAudioContextRef = None, outputAudioContextRef = None,
    scriptProcessorRef = None, inputSourceRef = None,
    mediaStreamRef = None, nextStartTimeRef = 0, sourcesRef = [],
    sessionPromiseRef = None, onEvaluationRef = True, reactions = [(2, Close)],
    effects =
      [NewAudioContext 0 16000, NewAudioContext 1 24000, LiveConnect 2,
       CreateMediaStreamSource 0 7 3, CreateScriptProcessor 0 4,
       NodeConnect 3, NodeConnect 4, TrackStop 7, NodeDisconnect 3,
       NodeDisconnect 4, ContextClose 0, ContextClose 1],
    nextId = 5\<rparr>"
    by (simp add: disconnect_def connected_hook_eq)
  show ?thesis
    unfolding b d
    by (simp add: torn_down_def onmessage_resume_def handle_interrupted_def audio_message_def
        set_add_def scheduled_def chunk_def duration_def Let_def)
qed

lemma onaudioprocess_reactions:
  "reactions (onaudioprocess createBlob inputData st) =
     reactions st @
     map (\<lambda>s. (s, SendRealtimeInput (createBlob inputData))) (opt_list (sessionPromiseRef st))"
  by (simp add: onaudioprocess_def Let_def opt_list_def split: option.split)

text \<open>
  Claim C4, as the code has it. No callback looks at which session it belongs to. The
  capture callback registers its send on whichever session promise is current when it
  runs, and registers nothing when none is: after \<^verbatim>\<open>disconnect\<close> it sends nothing.
  The continuation of \<^verbatim>\<open>onmessage\<close> after decoding checks nothing: in every state it
  starts the chunk's source at the cursor, adds it to the set of handles and advances
  the cursor by the chunk's duration (and then obeys the message's interruption flag).
\<close>

theorem stale_callbacks:
  "reactions (onaudioprocess createBlob inputData st) =
     reactions st @
     map (\<lambda>s. (s, SendRealtimeInput (createBlob inputData))) (opt_list (sessionPromiseRef st)) \<and>
   reactions (onaudioprocess createBlob inputData (disconnect st)) = reactions (disconnect st) \<and>
   sourcesRef (onmessage_resume c m b now st) =
     (if interrupted m then [] else set_add (nextId st) (sourcesRef st)) \<and>
   scheduled (onmessage_resume c m b now st) = scheduled st @ [(nextId st, nextStartTimeRef st)] \<and>
   nextStartTimeRef (onmessage_resume c m b now st) =
     (if interrupted m then now else nextStartTimeRef st + duration b)"
  by (simp add: onaudioprocess_reactions disconnect_fields opt_list_def
      onmessage_resume_fields scheduled_onmessage_resume)

theorem stale_callbacks_witness:
  "reactions (onaudioprocess (\<lambda>d. \<lparr> data = ''AAAA'', mimeType = ''audio/pcm;rate=16000'' \<rparr>) [0, 0]
               connected_hook) =
     [(2, SendRealtimeInput \<lparr> data = ''AAAA'', mimeType = ''audio/pcm;rate=16000'' \<rparr>)] \<and>
   reactions (onaudioprocess (\<lambda>d. \<lparr> data = ''AAAA'', mimeType = ''audio/pcm;rate=16000'' \<rparr>) [0, 0]
               (disconnect connected_hook)) = [(2, Close)] \<and>
   sourcesRef (onmessage_resume first_closure audio_message (chunk 2400) 0
                 (disconnect connected_hook)) = [5]"
  using stale_callbacks [of "\<lambda>d. \<lparr> data = ''AAAA'', mimeType = ''audio/pcm;rate=16000'' \<rparr>" "[0, 0]"
      connected_hook first_closure audio_message "chunk 2400" 0]
    stale_callbacks [of "\<lambda>d. \<lparr> data = ''AAAA'', mimeType = ''audio/pcm;rate=16000'' \<rparr>" "[0, 0]"
      "disconnect connected_hook" first_closure audio_message "chunk 2400" 0]
  by (simp add: disconnect_fields disconnect_reactions opt_list_def connected_hook_eq
      audio_message_def set_add_def)


subsection \<open>The wire encoding of one sample\<close>

text \<open>
  What the round trip of a sample loses depends on the divisor of the decoder. With
  32767 a sample between -1 and 1 comes back within 1/32767, however the encoder rounds
  to a neighbouring integer; with 32768 the sample 0.99999, rounded down, does not.
\<close>

lemma quantize_sample_in_range:
  assumes "- 1 \<le> x" "x \<le> 1" "\<bar>real_of_int (rounding (x * 32767)) - x * 32767\<bar> < 1"
  shows "quantize_sample rounding x = rounding (x * 32767)"
proof -
  have "real_of_int (rounding (x * 32767)) < 32768" "- 32768 < real_of_int (rounding (x * 32767))"
    using assms by linarith+
  then have "rounding (x * 32767) < 32768" "- 32768 < rounding (x * 32767)"
    by linarith+
  then show ?thesis
    by (simp add: quantize_sample_def)
qed

lemma roundtrip_divisor_32767:
  assumes "- 1 \<le> x" "x \<le> 1" "\<bar>real_of_int (rounding (x * 32767)) - x * 32767\<bar> < 1"
  shows "\<bar>normalize_sample 32767 (quantize_sample rounding x) - x\<bar> \<le> 1 / 32767"
proof -
  define d where "d = real_of_int (rounding (x * 32767)) - x * 32767"
  have "normalize_sample 32767 (quantize_sample rounding x) - x = d / 32767"
    using quantize_sample_in_range [of x rounding] assms
    by (simp add: normalize_sample_def d_def diff_divide_distrib)
  then have "\<bar>normalize_sample 32767 (quantize_sample rounding x) - x\<bar> = \<bar>d / 32767\<bar>"
    by (simp only:)
  also have "\<dots> = \<bar>d\<bar> / 32767"
    by (simp only: abs_divide abs_numeral)
  finally have "\<bar>normalize_sample 32767 (quantize_sample rounding x) - x\<bar> = \<bar>d\<bar> / 32767" .
  moreover have "\<bar>d\<bar> / 32767 \<le> 1 / 32767"
    using assms(3) unfolding d_def by (intro divide_right_mono) simp_all
  ultimately show ?thesis
    by simp
qed

lemma floor_sample: "\<lfloor>(99999 / 100000 :: real) * 32767\<rfloor> = 32766"
  by (rule floor_unique) simp_all

lemma roundtrip_divisor_32768:
  "\<bar>normalize_sample 32768 (quantize_sample floor (99999 / 100000)) - 99999 / 100000\<bar> > 1 / 32767"
  by (simp add: quantize_sample_def normalize_sample_def floor_sample)

lemma roundtrip_divisor_32767_floor:
  "\<bar>normalize_sample 32767 (quantize_sample floor (99999 / 100000)) - 99999 / 100000\<bar> \<le> 1 / 32767"
  using roundtrip_divisor_32767 [of "99999 / 100000" floor]
  by (simp add: floor_sample)

end
